theory Spec2Isabelle
  imports Main
begin

section \<open>Strings and characters\<close>

text \<open>
  A JavaScript string is modelled as a \<open>string\<close>: one \<open>char\<close> per code unit, for
  the code units \<open>0x00\<close> to \<open>0xFF\<close>. The character classes below are the ECMAScript
  ones cut down to that range: \<open>\s\<close> and \<open>trim\<close> share the white space and line
  terminator set, \<open>\d\<close> is \<open>0\<close> to \<open>9\<close>, and \<open>.\<close> (without the \<open>s\<close> flag)
  excludes the line terminators.
\<close>

definition isDigit :: "char \<Rightarrow> bool" where
  "isDigit c = (c \<in> set ''0123456789'')"

definition isLineTerminator :: "char \<Rightarrow> bool" where
  "isLineTerminator c = (c = CHR 0x0A \<or> c = CHR 0x0D)"

definition isWhiteSpace :: "char \<Rightarrow> bool" where
  "isWhiteSpace c =
     (c \<in> set [CHR 0x09, CHR 0x0A, CHR 0x0B, CHR 0x0C, CHR 0x0D, CHR 0x20, CHR 0xA0])"

definition dot :: "char \<Rightarrow> bool" where
  "dot c = (\<not> isLineTerminator c)"

definition dotAll :: "char \<Rightarrow> bool" where
  "dotAll c = True"

definition h24 :: "char \<Rightarrow> bool" where
  "h24 c = (c \<in> set ''234'')"

text \<open>
  \<open>canonicalize\<close> is the case folding of a regular expression with the \<open>i\<close> flag and
  without the \<open>u\<close> flag: a character is compared by its upper-case form, and a code
  unit from \<open>0x80\<close> on never folds onto an ASCII one. Every pattern character of
  this program is ASCII, so only the ASCII letters are folded here.
\<close>

definition canonicalize :: "char \<Rightarrow> char" where
  "canonicalize c =
     (let n = (of_char c :: nat) in if 97 \<le> n \<and> n \<le> 122 then char_of (n - 32) else c)"

text \<open>
  \<open>String.prototype.toLowerCase\<close> on the code units up to \<open>0xFF\<close>: \<open>A\<close> to \<open>Z\<close>
  and the Latin-1 capitals \<open>0xC0\<close> to \<open>0xDE\<close> (the multiplication sign \<open>0xD7\<close>
  apart) move up by 32.
\<close>

definition toLowerCase_char :: "char \<Rightarrow> char" where
  "toLowerCase_char c =
     (let n = (of_char c :: nat) in
      if (65 \<le> n \<and> n \<le> 90) \<or> (192 \<le> n \<and> n \<le> 222 \<and> n \<noteq> 215)
      then char_of (n + 32) else c)"

definition toLowerCase :: "string \<Rightarrow> string" where
  "toLowerCase s = map toLowerCase_char s"

fun startsWith :: "string \<Rightarrow> string \<Rightarrow> bool" where
  "startsWith s [] = True"
| "startsWith [] (p # ps) = False"
| "startsWith (c # cs) (p # ps) = (c = p \<and> startsWith cs ps)"

text \<open>\<open>js_includes s kw\<close>: \<open>kw\<close> occurs in \<open>s\<close> as a contiguous substring.\<close>

fun js_includes :: "string \<Rightarrow> string \<Rightarrow> bool" where
  "js_includes [] kw = (kw = [])"
| "js_includes (c # cs) kw = (startsWith (c # cs) kw \<or> js_includes cs kw)"

definition trim :: "string \<Rightarrow> string" where
  "trim s = rev (dropWhile isWhiteSpace (rev (dropWhile isWhiteSpace s)))"

text \<open>Indexing an array: out of range is \<open>undefined\<close>, here \<open>None\<close>.\<close>

definition element_at :: "'a list \<Rightarrow> nat \<Rightarrow> 'a option" where
  "element_at xs i = (if i < length xs then Some (xs ! i) else None)"

fun digit_value :: "char \<Rightarrow> nat" where
  "digit_value c = of_char c - 48"

fun decimal_value :: "nat \<Rightarrow> string \<Rightarrow> nat" where
  "decimal_value acc [] = acc"
| "decimal_value acc (c # cs) = decimal_value (10 * acc + digit_value c) cs"

definition isHexDigit :: "char \<Rightarrow> bool" where
  "isHexDigit c = (c \<in> set ''0123456789abcdefABCDEF'')"

fun hex_digit_value :: "char \<Rightarrow> nat" where
  "hex_digit_value c =
     (let n = (of_char c :: nat) in
      if n \<le> 57 then n - 48 else if n \<le> 70 then n - 55 else n - 87)"

fun hex_value :: "nat \<Rightarrow> string \<Rightarrow> nat" where
  "hex_value acc [] = acc"
| "hex_value acc (c # cs) = hex_value (16 * acc + hex_digit_value c) cs"

fun strip_sign :: "string \<Rightarrow> int \<times> string" where
  "strip_sign [] = (1, [])"
| "strip_sign (c # cs) =
     (if c = CHR ''-'' then (- 1, cs) else if c = CHR ''+'' then (1, cs) else (1, c # cs))"

fun strip_radix :: "string \<Rightarrow> bool \<times> string" where
  "strip_radix (a # b # cs) =
     (if a = CHR ''0'' \<and> (b = CHR ''x'' \<or> b = CHR ''X'') then (True, cs) else (False, a # b # cs))"
| "strip_radix s = (False, s)"

text \<open>
  \<open>parseInt(x)\<close> with no radix. \<open>None\<close> as argument is \<open>undefined\<close>, whose string
  form has no digits; \<open>None\<close> as result is \<open>NaN\<close>. Leading white space is skipped,
  a sign and a \<open>0x\<close> prefix are read, then the longest run of digits. The value is
  the exact integer: the Number that JavaScript returns is that integer up to
  \<open>2^53\<close> and stays above 100 beyond, which is all the caller looks at.
\<close>

definition parseInt :: "string option \<Rightarrow> int option" where
  "parseInt x =
     (case x of
        None \<Rightarrow> None
      | Some s \<Rightarrow>
          (let (sign, s1) = strip_sign (dropWhile isWhiteSpace s);
               (hex, s2) = strip_radix s1;
               ds = takeWhile (if hex then isHexDigit else isDigit) s2
           in if ds = [] then None
              else Some (sign * int (if hex then hex_value 0 ds else decimal_value 0 ds))))"

text \<open>Decimal rendering of a number in a template string.\<close>

fun toString :: "nat \<Rightarrow> string" where
  "toString n =
     (if n < 10 then [''0123456789'' ! n]
      else toString (n div 10) @ [''0123456789'' ! (n mod 10)])"

section \<open>Regular expressions\<close>

text \<open>
  A pattern is a backtracking matcher in continuation style, as in the ECMAScript
  definition of pattern semantics: a matcher takes the continuation for the rest of
  the pattern and the input from the current position on; \<open>None\<close> is failure, and a
  quantifier that fails in its continuation tries its next alternative.
\<close>

type_synonym 'a cont = "string \<Rightarrow> 'a option"

text \<open>The result of a whole pattern: its capture groups and the input after the match.\<close>

type_synonym matcher = "(string list \<times> string) cont"

text \<open>A literal, under the \<open>i\<close> flag.\<close>

fun lit :: "string \<Rightarrow> 'a cont \<Rightarrow> 'a cont" where
  "lit [] k s = k s"
| "lit (p # ps) k [] = None"
| "lit (p # ps) k (c # cs) =
     (if canonicalize c = canonicalize p then lit ps k cs else None)"

text \<open>One character of a class.\<close>

fun cls :: "(char \<Rightarrow> bool) \<Rightarrow> 'a cont \<Rightarrow> 'a cont" where
  "cls P k [] = None"
| "cls P k (c # cs) = (if P c then k cs else None)"

text \<open>
  \<open>X*?\<close>: the continuation first, one more character only when it fails. The
  characters consumed so far are handed to the continuation.
\<close>

fun lazy_star :: "(char \<Rightarrow> bool) \<Rightarrow> (string \<Rightarrow> 'a cont) \<Rightarrow> string \<Rightarrow> 'a cont" where
  "lazy_star P k acc [] = k acc []"
| "lazy_star P k acc (c # cs) =
     (case k acc (c # cs) of
        Some r \<Rightarrow> Some r
      | None \<Rightarrow> if P c then lazy_star P k (acc @ [c]) cs else None)"

text \<open>\<open>X*\<close>: as many characters as possible first, one fewer when the continuation fails.\<close>

fun greedy_star :: "(char \<Rightarrow> bool) \<Rightarrow> (string \<Rightarrow> 'a cont) \<Rightarrow> string \<Rightarrow> 'a cont" where
  "greedy_star P k acc [] = k acc []"
| "greedy_star P k acc (c # cs) =
     (if P c
      then (case greedy_star P k (acc @ [c]) cs of
              Some r \<Rightarrow> Some r
            | None \<Rightarrow> k acc (c # cs))
      else k acc (c # cs))"

fun greedy_plus :: "(char \<Rightarrow> bool) \<Rightarrow> (string \<Rightarrow> 'a cont) \<Rightarrow> 'a cont" where
  "greedy_plus P k [] = None"
| "greedy_plus P k (c # cs) = (if P c then greedy_star P k [c] cs else None)"

text \<open>
  The search of \<open>RegExp.prototype.exec\<close>: the pattern is tried at every index from the
  left. The result is the match array (the matched text, then the groups) and the
  input after the match.
\<close>

fun regex_exec :: "matcher \<Rightarrow> string \<Rightarrow> (string list \<times> string) option" where
  "regex_exec m [] =
     (case m [] of Some (groups, rest) \<Rightarrow> Some ([] # groups, rest) | None \<Rightarrow> None)"
| "regex_exec m (c # cs) =
     (case m (c # cs) of
        Some (groups, rest) \<Rightarrow>
          Some (take (length (c # cs) - length rest) (c # cs) # groups, rest)
      | None \<Rightarrow> regex_exec m cs)"

text \<open>
  With the \<open>g\<close> flag \<open>String.prototype.match\<close> collects the matched text of every
  match, each search starting where the previous match ended (one further after an
  empty match). The groups are not part of the result.
\<close>

fun match_all :: "matcher \<Rightarrow> string \<Rightarrow> string list" where
  "match_all m [] = (case m [] of Some r \<Rightarrow> [[]] | None \<Rightarrow> [])"
| "match_all m (c # cs) =
     (case m (c # cs) of
        Some (groups, rest) \<Rightarrow>
          take (length (c # cs) - length rest) (c # cs)
            # match_all m (drop (length cs - length rest) cs)
      | None \<Rightarrow> match_all m cs)"

text \<open>
  \<open>text.match(pattern)\<close>: \<open>None\<close> is \<open>null\<close>. Without \<open>g\<close> the array is the one of
  \<open>exec\<close>; with \<open>g\<close> it is the list of all matched texts, \<open>null\<close> when there is none.
\<close>

record regex =
  source :: matcher
  global :: bool

definition js_match :: "string \<Rightarrow> regex \<Rightarrow> string list option" where
  "js_match s r =
     (if global r
      then (case match_all (source r) s of [] \<Rightarrow> None | m # ms \<Rightarrow> Some (m # ms))
      else map_option fst (regex_exec (source r) s))"

section \<open>The result parser\<close>

definition digits_percent :: "matcher" where
  "digits_percent = greedy_plus isDigit (\<lambda>d. lit ''%'' (\<lambda>rest. Some ([d], rest)))"

text \<open>\<^verbatim>\<open>/Match Percentage:.*?(\d+)%/i\<close>\<close>

definition pattern1 :: regex where
  "pattern1 =
     \<lparr>source = lit ''Match Percentage:'' (lazy_star dot (\<lambda>_. digits_percent) []),
      global = False\<rparr>"

text \<open>\<^verbatim>\<open>/(\d+)%.*?match/i\<close>\<close>

definition pattern2 :: regex where
  "pattern2 =
     \<lparr>source = greedy_plus isDigit (\<lambda>d. lit ''%''
                 (lazy_star dot (\<lambda>_. lit ''match'' (\<lambda>rest. Some ([d], rest))) [])),
      global = False\<rparr>"

text \<open>\<^verbatim>\<open>/score:.*?(\d+)%/i\<close>\<close>

definition pattern3 :: regex where
  "pattern3 =
     \<lparr>source = lit ''score:'' (lazy_star dot (\<lambda>_. digits_percent) []),
      global = False\<rparr>"

text \<open>\<^verbatim>\<open>/(\d+)\s*%/g\<close>\<close>

definition pattern4 :: regex where
  "pattern4 =
     \<lparr>source = greedy_plus isDigit (\<lambda>d. greedy_star isWhiteSpace
                 (\<lambda>_. lit ''%'' (\<lambda>rest. Some ([d], rest))) []),
      global = True\<rparr>"

definition patterns :: "regex list" where
  "patterns = [pattern1, pattern2, pattern3, pattern4]"

text \<open>
  The body of the loop over the patterns: \<open>parseInt(match[1])\<close> when the pattern
  matches and the number lies between 0 and 100. A comparison with \<open>NaN\<close> is false.
\<close>

definition pattern_score :: "regex \<Rightarrow> string \<Rightarrow> int option" where
  "pattern_score pattern analysisText =
     (case js_match analysisText pattern of
        None \<Rightarrow> None
      | Some m \<Rightarrow>
          (case parseInt (element_at m 1) of
             None \<Rightarrow> None
           | Some score \<Rightarrow> if score \<ge> 0 \<and> score \<le> 100 then Some score else None))"

text \<open>The loop: the score of the first pattern that yields one.\<close>

fun first_score :: "regex list \<Rightarrow> string \<Rightarrow> int option" where
  "first_score [] analysisText = None"
| "first_score (pattern # ps) analysisText =
     (case pattern_score pattern analysisText of
        Some score \<Rightarrow> Some score
      | None \<Rightarrow> first_score ps analysisText)"

definition keyword_score :: "string \<Rightarrow> int" where
  "keyword_score analysisText =
     (if js_includes (toLowerCase analysisText) ''excellent'' \<or>
         js_includes (toLowerCase analysisText) ''strong match'' then 85
      else if js_includes (toLowerCase analysisText) ''good'' \<or>
              js_includes (toLowerCase analysisText) ''suitable'' then 75
      else if js_includes (toLowerCase analysisText) ''fair'' \<or>
              js_includes (toLowerCase analysisText) ''potential'' then 65
      else 60)"

definition extractMatchScore :: "string \<Rightarrow> int" where
  "extractMatchScore analysisText =
     (case first_score patterns analysisText of
        Some score \<Rightarrow> score
      | None \<Rightarrow> keyword_score analysisText)"

text \<open>
  The heading patterns of \<open>parseAnalysisResult\<close>, for a keyword \<open>kw\<close>:
  \<^verbatim>\<open>/<h[2-4]>.*?kw.*?<\/h[2-4]>(.*?)(?=<h[2-4]|$)/is\<close>.
  With the \<open>s\<close> flag the dot matches every character; without the \<open>m\<close> flag
  \<open>$\<close> is the end of the input. The lookahead consumes nothing.
\<close>

definition next_heading :: "string \<Rightarrow> bool" where
  "next_heading s = (lit ''<h'' (cls h24 (\<lambda>rest. Some ())) s \<noteq> None)"

definition section_body :: "matcher" where
  "section_body =
     lazy_star dotAll
       (\<lambda>body rest. if next_heading rest \<or> rest = [] then Some ([body], rest) else None) []"

definition heading_pattern :: "string \<Rightarrow> regex" where
  "heading_pattern kw =
     \<lparr>source =
        lit ''<h'' (cls h24 (lit ''>''
          (lazy_star dotAll (\<lambda>_. lit kw
            (lazy_star dotAll (\<lambda>_. lit ''</h'' (cls h24 (lit ''>'' section_body))) [])) []))),
      global = False\<rparr>"

record sections =
  skills :: string
  experience :: string
  recommendations :: string
  strengths :: string
  weaknesses :: string
  overall :: string

text \<open>
  \<open>if (m) sections.x = m[1]\<close>: the field is overwritten only when the pattern matched.
  The match array of \<open>regex_exec\<close> is the matched text followed by the groups, and
  \<open>section_body\<close> returns its one group, so index 1 is always there and the last case
  is never taken.
\<close>

definition section_of :: "string \<Rightarrow> string \<Rightarrow> string" where
  "section_of kw analysisText =
     (case js_match analysisText (heading_pattern kw) of
        None \<Rightarrow> []
      | Some m \<Rightarrow> (case element_at m 1 of Some body \<Rightarrow> body | None \<Rightarrow> []))"

definition parseAnalysisResult :: "string \<Rightarrow> sections" where
  "parseAnalysisResult analysisText =
     \<lparr>skills = section_of ''skills'' analysisText,
      experience = section_of ''experience'' analysisText,
      recommendations = section_of ''recommendation'' analysisText,
      strengths = [],
      weaknesses = [],
      overall = analysisText\<rparr>"

section \<open>The upload form and the submitter\<close>

record jsfile =
  file_name :: string
  file_type :: string
  file_size :: nat

datatype api_status = Checking | Connected | Error

record analysis_result =
  matchScore :: int
  analysis :: sections
  rawAnalysis :: string
  analyzedAt :: "string option"

text \<open>The state variables of the component; \<open>stored_file\<close> is the variable \<open>file\<close>.\<close>

record app_state =
  stored_file :: "jsfile option"
  jobDescription :: string
  isLoading :: bool
  results :: "analysis_result option"
  error :: "string option"
  apiStatus :: api_status
  dragActive :: bool

definition handleFileChange :: "jsfile \<Rightarrow> app_state \<Rightarrow> app_state" where
  "handleFileChange f st =
     (if file_type f \<noteq> ''application/pdf''
      then st\<lparr>error := Some ''Only PDF files are allowed''\<rparr>
      else if file_size f > 5 * 1024 * 1024
      then st\<lparr>error := Some ''File size exceeds 5MB limit''\<rparr>
      else st\<lparr>stored_file := Some f, error := None\<rparr>)"

text \<open>
  The response of \<open>POST /api/analyze\<close> as \<open>handleSubmit\<close> reads it: \<open>response.ok\<close>,
  \<open>response.status\<close> and the fields of the JSON body \<open>data\<close>; an absent field is
  \<open>None\<close>. \<open>Rejected msg\<close> is a \<open>fetch\<close> or a \<open>response.json()\<close> that throws an error
  with message \<open>msg\<close>.
\<close>

record response =
  ok :: bool
  status :: nat
  data_success :: bool
  data_error :: "string option"
  data_result :: "string option"
  data_matchScore :: "int option"
  data_analyzedAt :: "string option"

datatype fetch_outcome = Rejected string | Responded response

text \<open>The multipart body of the request.\<close>

record form_data =
  resume :: jsfile
  jobDescription_field :: string

text \<open>\<open>a || b\<close> on an optional string: the empty string and an absent value are falsy.\<close>

definition or_else :: "string option \<Rightarrow> string \<Rightarrow> string" where
  "or_else a b = (case a of None \<Rightarrow> b | Some s \<Rightarrow> if s = [] then b else s)"

text \<open>
  The body of the \<open>try\<close> block after the request: \<open>Inl msg\<close> is an error thrown with
  message \<open>msg\<close>. Calling \<open>match\<close> on an absent \<open>data.result\<close> throws a TypeError, whose
  message \<open>typeError\<close> is the engine's. \<open>data.matchScore || extractMatchScore(data.result)\<close>
  takes the server's score unless it is falsy (absent or 0).
\<close>

definition analyse_response :: "string \<Rightarrow> fetch_outcome \<Rightarrow> string + analysis_result" where
  "analyse_response typeError outcome =
     (case outcome of
        Rejected msg \<Rightarrow> Inl msg
      | Responded r \<Rightarrow>
          if \<not> ok r
          then Inl (or_else (data_error r) (''HTTP error! status: '' @ toString (status r)))
          else if \<not> data_success r
          then Inl (or_else (data_error r) ''Analysis failed'')
          else
            (case data_result r of
               None \<Rightarrow> Inl typeError
             | Some analysisText \<Rightarrow>
                 Inr \<lparr>matchScore =
                        (case data_matchScore r of
                           None \<Rightarrow> extractMatchScore analysisText
                         | Some n \<Rightarrow> if n \<noteq> 0 then n else extractMatchScore analysisText),
                      analysis = parseAnalysisResult analysisText,
                      rawAnalysis = analysisText,
                      analyzedAt = data_analyzedAt r\<rparr>))"

text \<open>
  \<open>handleSubmit\<close> on the state of the render it was created in, with the outcome of the
  request it may send. It returns the state after the handler and the requests sent.
\<close>

definition handleSubmit ::
    "string \<Rightarrow> app_state \<Rightarrow> fetch_outcome \<Rightarrow> app_state \<times> form_data list" where
  "handleSubmit typeError st outcome =
     (case stored_file st of
        None \<Rightarrow> (st\<lparr>error := Some ''Please upload your resume''\<rparr>, [])
      | Some f \<Rightarrow>
          if trim (jobDescription st) = []
          then (st\<lparr>error := Some ''Please enter the job description''\<rparr>, [])
          else if length (trim (jobDescription st)) < 20
          then (st\<lparr>error :=
                   Some ''Job description must be at least 20 characters long''\<rparr>, [])
          else if apiStatus st = Error
          then (st\<lparr>error := Some
                   ''Backend server is not available. Please ensure the server is running''\<rparr>,
                [])
          else
            (let st1 = st\<lparr>isLoading := True, error := None, results := None\<rparr>;
                 formData = \<lparr>resume = f, jobDescription_field = jobDescription st\<rparr>;
                 st2 =
                   (case analyse_response typeError outcome of
                      Inr res \<Rightarrow> st1\<lparr>results := Some res\<rparr>
                    | Inl msg \<Rightarrow>
                        if js_includes msg ''Failed to fetch''
                        then st1\<lparr>apiStatus := Error, error := Some
                          ''Cannot connect to the backend server. Please ensure the server is running''\<rparr>
                        else st1\<lparr>error := Some msg\<rparr>)
             in (st2\<lparr>isLoading := False\<rparr>, [formData])))"

section \<open>The result renderer\<close>

definition getScoreColor :: "int \<Rightarrow> string" where
  "getScoreColor score =
     (if score \<ge> 90 then ''from-green-500 to-emerald-600 border-green-400/50''
      else if score \<ge> 80 then ''from-blue-500 to-cyan-600 border-blue-400/50''
      else if score \<ge> 70 then ''from-yellow-500 to-orange-600 border-yellow-400/50''
      else ''from-red-500 to-red-600 border-red-400/50'')"

text \<open>The icon literals, as the bytes of the source file.\<close>

definition getScoreIcon :: "int \<Rightarrow> string" where
  "getScoreIcon score =
     (if score \<ge> 90
      then [CHR 0xC3, CHR 0xB0, CHR 0xC5, CHR 0xB8, CHR 0xC5, CHR 0xBD, CHR 0xC2, CHR 0xAF]
      else if score \<ge> 80
      then [CHR 0xC3, CHR 0xB0, CHR 0xC5, CHR 0xB8, CHR 0xE2, CHR 0x80, CHR 0x98]
      else if score \<ge> 70
      then [CHR 0xC3, CHR 0xB0, CHR 0xC5, CHR 0xB8, CHR 0xE2, CHR 0x80, CHR 0x98,
            CHR 0xC5, CHR 0x92]
      else [CHR 0xC3, CHR 0xA2, CHR 0xC5, CHR 0xA1, CHR 0xC2, CHR 0xA0, CHR 0xC3, CHR 0xAF,
            CHR 0xC2, CHR 0xB8])"

definition getScoreDescription :: "int \<Rightarrow> string" where
  "getScoreDescription score =
     (if score \<ge> 90 then ''Excellent Match''
      else if score \<ge> 80 then ''Strong Match''
      else if score \<ge> 70 then ''Good Match''
      else if score \<ge> 60 then ''Fair Match''
      else ''Needs Improvement'')"

text \<open>The band of a score under the cut points 90, 80 and 70.\<close>

definition band :: "int \<Rightarrow> nat" where
  "band score = (if score \<ge> 90 then 3 else if score \<ge> 80 then 2 else if score \<ge> 70 then 1 else 0)"

text \<open>The bands of the labels: the cut points 90, 80, 70 and 60.\<close>

definition label_band :: "int \<Rightarrow> nat" where
  "label_band score =
     (if score \<ge> 90 then 4 else if score \<ge> 80 then 3 else if score \<ge> 70 then 2
      else if score \<ge> 60 then 1 else 0)"

section \<open>The specification's reading of the parser\<close>

text \<open>
  The specification's words for one pattern of the score extraction, to compare
  \<open>pattern_score\<close> with: the captured integer (group 1) of the first match of the
  pattern, when it lies between 0 and 100; for the fourth pattern, the number of the
  first standalone percentage.
\<close>

definition spec_pattern_score :: "regex \<Rightarrow> string \<Rightarrow> int option" where
  "spec_pattern_score pattern analysisText =
     (case regex_exec (source pattern) analysisText of
        None \<Rightarrow> None
      | Some (m, rest) \<Rightarrow>
          (case parseInt (element_at m 1) of
             None \<Rightarrow> None
           | Some score \<Rightarrow> if score \<ge> 0 \<and> score \<le> 100 then Some score else None))"

text \<open>
  The specification's words for a section, to compare \<open>section_of\<close> with, written
  without the matchers above. A heading is an opening tag \<open><h2>\<close>, \<open><h3>\<close> or \<open><h4>\<close>,
  its text, and the first closing tag \<open></h2>\<close>, \<open></h3>\<close> or \<open></h4>\<close> after the opening
  tag, in either letter case. The section of a keyword is the text after the first
  heading whose text contains the keyword (in either letter case), up to the next
  \<open><h2\<close>, \<open><h3\<close> or \<open><h4\<close> or to the end of the text; it is empty when no heading
  contains the keyword.
\<close>

definition spec_opening_tag :: "string \<Rightarrow> bool" where
  "spec_opening_tag s =
     (take 4 s \<in> set [''<h2>'', ''<h3>'', ''<h4>'', ''<H2>'', ''<H3>'', ''<H4>''])"

definition spec_closing_tag :: "string \<Rightarrow> bool" where
  "spec_closing_tag s =
     (take 5 s \<in> set [''</h2>'', ''</h3>'', ''</h4>'', ''</H2>'', ''</H3>'', ''</H4>''])"

definition spec_heading_start :: "string \<Rightarrow> bool" where
  "spec_heading_start s =
     (take 3 s \<in> set [''<h2'', ''<h3'', ''<h4'', ''<H2'', ''<H3'', ''<H4''])"

text \<open>The text of a heading up to its closing tag, and the text after that tag.\<close>

fun spec_heading_text :: "string \<Rightarrow> (string \<times> string) option" where
  "spec_heading_text [] = None"
| "spec_heading_text (c # cs) =
     (if spec_closing_tag (c # cs) then Some ([], drop 5 (c # cs))
      else map_option (\<lambda>(h, rest). (c # h, rest)) (spec_heading_text cs))"

fun spec_body :: "string \<Rightarrow> string" where
  "spec_body [] = []"
| "spec_body (c # cs) = (if spec_heading_start (c # cs) then [] else c # spec_body cs)"

fun spec_section :: "string \<Rightarrow> string \<Rightarrow> string" where
  "spec_section kw [] = []"
| "spec_section kw (c # cs) =
     (if spec_opening_tag (c # cs)
      then (case spec_heading_text (drop 4 (c # cs)) of
              None \<Rightarrow> spec_section kw cs
            | Some (h, rest) \<Rightarrow>
                if js_includes (toLowerCase h) (toLowerCase kw) then spec_body rest
                else spec_section kw cs)
      else spec_section kw cs)"

section \<open>The error message and its timers\<close>

text \<open>
  The \<open>error\<close> state variable with the timers that clear it. Time is in milliseconds.
  A timer fires when the clock reaches its due time, and the clock cannot pass a
  pending timer. The effect with the dependency \<open>[error]\<close> runs after a render in which
  \<open>error\<close> has changed: first the cleanup of its previous run (\<open>clearTimeout\<close> of the
  timer it had set), then, when \<open>error\<close> is truthy, \<open>setTimeout(() => setError(null), 8000)\<close>.
  \<open>setError\<close> with the value already stored changes nothing. The share button, once
  the clipboard write has succeeded, calls \<open>setError\<close> with its confirmation and
  \<open>setTimeout(() => setError(null), 2000)\<close>, a timer that nothing clears.
  \<open>SetError v\<close> stands for every other call \<open>setError(v)\<close> of the component.
\<close>

text \<open>A pending timer: who set it, and when it is due. Both callbacks are \<open>setError(null)\<close>.\<close>

datatype timer_origin = EffectTimer | ShareTimer

record timer =
  timer_id :: nat
  due :: nat
  origin :: timer_origin

text \<open>
  \<open>error_message\<close> is the state variable \<open>error\<close>; \<open>cleanup\<close> is the timer that the
  cleanup function returned by the last run of the effect will clear, if it returned one.
\<close>

record runtime =
  error_message :: "string option"
  clock :: nat
  pending :: "timer list"
  cleanup :: "nat option"
  next_id :: nat

text \<open>\<open>if (error)\<close>: \<open>null\<close> and the empty string are falsy.\<close>

definition truthy :: "string option \<Rightarrow> bool" where
  "truthy e = (case e of None \<Rightarrow> False | Some s \<Rightarrow> s \<noteq> [])"

definition setTimeout :: "timer_origin \<Rightarrow> nat \<Rightarrow> runtime \<Rightarrow> runtime" where
  "setTimeout who delay \<sigma> =
     \<sigma>\<lparr>pending := pending \<sigma> @ [\<lparr>timer_id = next_id \<sigma>, due = clock \<sigma> + delay, origin = who\<rparr>],
       next_id := next_id \<sigma> + 1\<rparr>"

definition clearTimeout :: "nat \<Rightarrow> runtime \<Rightarrow> runtime" where
  "clearTimeout i \<sigma> = \<sigma>\<lparr>pending := filter (\<lambda>t. timer_id t \<noteq> i) (pending \<sigma>)\<rparr>"

text \<open>The effect: the cleanup of its previous run, then its body.\<close>

definition error_effect :: "runtime \<Rightarrow> runtime" where
  "error_effect \<sigma> =
     (let \<sigma>1 = (case cleanup \<sigma> of None \<Rightarrow> \<sigma> | Some i \<Rightarrow> clearTimeout i \<sigma>)\<lparr>cleanup := None\<rparr>
      in if truthy (error_message \<sigma>1)
         then (setTimeout EffectTimer 8000 \<sigma>1)\<lparr>cleanup := Some (next_id \<sigma>1)\<rparr>
         else \<sigma>1)"

text \<open>\<open>setError(v)\<close> with the render and the effect that follow it.\<close>

definition setError :: "string option \<Rightarrow> runtime \<Rightarrow> runtime" where
  "setError v \<sigma> =
     (if v = error_message \<sigma> then \<sigma> else error_effect (\<sigma>\<lparr>error_message := v\<rparr>))"

text \<open>
  The callback of the share button. Its timer is created inside the callback, so
  before the render in which the effect runs.
\<close>

definition share_copied :: "runtime \<Rightarrow> runtime" where
  "share_copied \<sigma> =
     setError (Some ''Analysis link copied to clipboard!'') (setTimeout ShareTimer 2000 \<sigma>)"

text \<open>A timer that is due fires: it leaves the pending timers and calls \<open>setError(null)\<close>.\<close>

definition timer_fires :: "nat \<Rightarrow> runtime \<Rightarrow> runtime option" where
  "timer_fires i \<sigma> =
     (case find (\<lambda>t. timer_id t = i) (pending \<sigma>) of
        None \<Rightarrow> None
      | Some t \<Rightarrow> if due t \<le> clock \<sigma> then Some (setError None (clearTimeout i \<sigma>)) else None)"

text \<open>Time passes, up to the next due time at most.\<close>

definition time_passes :: "nat \<Rightarrow> runtime \<Rightarrow> runtime option" where
  "time_passes d \<sigma> =
     (if list_all (\<lambda>t. clock \<sigma> + d \<le> due t) (pending \<sigma>)
      then Some (\<sigma>\<lparr>clock := clock \<sigma> + d\<rparr>) else None)"

datatype event = SetError "string option" | ShareCopied | TimerFires nat | TimePasses nat

fun step :: "runtime \<Rightarrow> event \<Rightarrow> runtime option" where
  "step \<sigma> (SetError v) = Some (setError v \<sigma>)"
| "step \<sigma> ShareCopied = Some (share_copied \<sigma>)"
| "step \<sigma> (TimerFires i) = timer_fires i \<sigma>"
| "step \<sigma> (TimePasses d) = time_passes d \<sigma>"

fun run :: "runtime \<Rightarrow> event list \<Rightarrow> runtime option" where
  "run \<sigma> [] = Some \<sigma>"
| "run \<sigma> (e # es) = (case step \<sigma> e of None \<Rightarrow> None | Some \<sigma>' \<Rightarrow> run \<sigma>' es)"

definition initial_runtime :: runtime where
  "initial_runtime =
     \<lparr>error_message = None, clock = 0, pending = [], cleanup = None, next_id = 0\<rparr>"

text \<open>The pending timers that the effect has set.\<close>

definition effect_timers :: "runtime \<Rightarrow> timer list" where
  "effect_timers \<sigma> = filter (\<lambda>t. origin t = EffectTimer) (pending \<sigma>)"

text \<open>
  The invariant of the runs: timer ids are fresh and distinct, no timer is overdue or
  due later than 8 seconds from now, every pending timer of the effect is the one its
  cleanup will clear, and the effect has a timer pending exactly while a message is shown.
\<close>

definition timers_ok :: "runtime \<Rightarrow> bool" where
  "timers_ok \<sigma> =
     ((\<forall>t \<in> set (pending \<sigma>). timer_id t < next_id \<sigma> \<and> clock \<sigma> \<le> due t
          \<and> due t \<le> clock \<sigma> + 8000)
      \<and> distinct (map timer_id (pending \<sigma>))
      \<and> (\<forall>t \<in> set (pending \<sigma>). origin t = EffectTimer \<longrightarrow> cleanup \<sigma> = Some (timer_id t))
      \<and> (truthy (error_message \<sigma>) \<longleftrightarrow> (\<exists>t \<in> set (pending \<sigma>). origin t = EffectTimer)))"

section \<open>Example inputs\<close>

definition initial_state :: app_state where
  "initial_state =
     \<lparr>stored_file = None, jobDescription = [], isLoading = False, results = None,
      error = None, apiStatus = Checking, dragActive = False\<rparr>"

definition pdf_file :: jsfile where
  "pdf_file = \<lparr>file_name = ''cv.pdf'', file_type = ''application/pdf'', file_size = 204800\<rparr>"

definition png_file :: jsfile where
  "png_file = \<lparr>file_name = ''photo.png'', file_type = ''image/png'', file_size = 1024\<rparr>"

definition big_pdf_file :: jsfile where
  "big_pdf_file =
     \<lparr>file_name = ''book.pdf'', file_type = ''application/pdf'', file_size = 6000000\<rparr>"

definition ready_state :: app_state where
  "ready_state =
     initial_state\<lparr>stored_file := Some pdf_file,
       jobDescription := ''  Senior engineer, ten years  '', apiStatus := Connected\<rparr>"

definition response_92 :: response where
  "response_92 =
     \<lparr>ok = True, status = 200, data_success = True, data_error = None,
      data_result = Some ''<h2>Skills</h2>Good skills<h2>Experience</h2>5 years'',
      data_matchScore = Some 92, data_analyzedAt = Some ''2024-01-01T00:00:00Z''\<rparr>"

definition response_0 :: response where
  "response_0 =
     \<lparr>ok = True, status = 200, data_success = True, data_error = None,
      data_result = Some ''Match Percentage: 50%'',
      data_matchScore = Some 0, data_analyzedAt = None\<rparr>"

definition example_analysis :: string where
  "example_analysis = ''<h2>Skills</h2>Good skills<h2>Experience</h2>5 years''"

definition stray_keyword_analysis :: string where
  "stray_keyword_analysis = ''<h2>Intro</h2>text about skills<h2>Experience</h2>exp''"

definition two_percentages :: string where
  "two_percentages = ''Rated 150% then 42%''"

definition pdf_message :: "string option" where
  "pdf_message = Some ''Only PDF files are allowed''"

definition size_message :: "string option" where
  "size_message = Some ''File size exceeds 5MB limit''"

text \<open>The state five seconds after \<open>pdf_message\<close> was set in the initial state.\<close>

definition shown_for_5s :: runtime where
  "shown_for_5s =
     \<lparr>error_message = pdf_message, clock = 5000,
      pending = [\<lparr>timer_id = 0, due = 8000, origin = EffectTimer\<rparr>],
      cleanup = Some 0, next_id = 1\<rparr>"

section \<open>Properties of the upload form\<close>

text \<open>
  Claim C7. A candidate file whose MIME type is not \<open>application/pdf\<close> is rejected with
  the validation message, and nothing but the error message changes: the stored file
  (or its absence) is the one from before.
\<close>

theorem handleFileChange_rejects_non_pdf:
  assumes "file_type f \<noteq> ''application/pdf''"
  shows "handleFileChange f st = st\<lparr>error := Some ''Only PDF files are allowed''\<rparr>
         \<and> stored_file (handleFileChange f st) = stored_file st"
  using assms by (simp add: handleFileChange_def)

theorem handleFileChange_rejects_non_pdf_witness:
  "file_type png_file \<noteq> ''application/pdf''
   \<and> stored_file (handleFileChange png_file ready_state) = Some pdf_file
   \<and> error (handleFileChange png_file ready_state) = Some ''Only PDF files are allowed''"
proof -
  have h: "file_type png_file \<noteq> ''application/pdf''"
    by (simp add: png_file_def)
  from handleFileChange_rejects_non_pdf [OF h, of ready_state] h show ?thesis
    by (simp add: ready_state_def)
qed

text \<open>
  Claim C8. A candidate file of more than 5,242,880 bytes is rejected whatever its MIME
  type: the stored file is unchanged and an error message is set, the one of the type
  check when the type is wrong too, the one of the size check otherwise.
\<close>

theorem handleFileChange_rejects_large:
  assumes "file_size f > 5242880"
  shows "handleFileChange f st =
           st\<lparr>error := Some (if file_type f \<noteq> ''application/pdf''
                              then ''Only PDF files are allowed''
                              else ''File size exceeds 5MB limit'')\<rparr>
         \<and> stored_file (handleFileChange f st) = stored_file st"
  using assms by (simp add: handleFileChange_def)

theorem handleFileChange_rejects_large_witness:
  "file_size big_pdf_file > 5242880
   \<and> stored_file (handleFileChange big_pdf_file initial_state) = None
   \<and> error (handleFileChange big_pdf_file initial_state) = Some ''File size exceeds 5MB limit''"
proof -
  have h: "file_size big_pdf_file > 5242880"
    by (simp add: big_pdf_file_def)
  from handleFileChange_rejects_large [OF h, of initial_state] h show ?thesis
    by (simp add: initial_state_def big_pdf_file_def)
qed

section \<open>Properties of the submitter\<close>

text \<open>
  Claim C3. \<open>handleSubmit\<close> checks, in this order: a file is stored, the trimmed
  description is not empty, the trimmed description has at least 20 characters, the
  API status is not \<open>error\<close>. The first check that fails sets its own message (the four
  messages differ), no request is sent, and the state is otherwise unchanged: loading
  flag, results, stored file and description are the ones from before.
\<close>

theorem handleSubmit_preconditions:
  "(stored_file st = None \<longrightarrow>
      handleSubmit te st outcome = (st\<lparr>error := Some ''Please upload your resume''\<rparr>, []))
   \<and> (stored_file st \<noteq> None \<and> trim (jobDescription st) = [] \<longrightarrow>
      handleSubmit te st outcome =
        (st\<lparr>error := Some ''Please enter the job description''\<rparr>, []))
   \<and> (stored_file st \<noteq> None \<and> trim (jobDescription st) \<noteq> []
        \<and> length (trim (jobDescription st)) < 20 \<longrightarrow>
      handleSubmit te st outcome =
        (st\<lparr>error := Some ''Job description must be at least 20 characters long''\<rparr>, []))
   \<and> (stored_file st \<noteq> None \<and> length (trim (jobDescription st)) \<ge> 20
        \<and> apiStatus st = Error \<longrightarrow>
      handleSubmit te st outcome =
        (st\<lparr>error := Some
           ''Backend server is not available. Please ensure the server is running''\<rparr>, []))
   \<and> (stored_file st \<noteq> None \<and> length (trim (jobDescription st)) \<ge> 20
        \<and> apiStatus st \<noteq> Error \<longrightarrow>
      length (snd (handleSubmit te st outcome)) = 1)
   \<and> distinct [''Please upload your resume'', ''Please enter the job description'',
        ''Job description must be at least 20 characters long'',
        ''Backend server is not available. Please ensure the server is running'']"
  by (auto simp add: handleSubmit_def Let_def split: option.splits)

theorem handleSubmit_preconditions_witness:
  "handleSubmit [] initial_state (Rejected []) =
     (initial_state\<lparr>error := Some ''Please upload your resume''\<rparr>, [])
   \<and> handleSubmit [] (ready_state\<lparr>jobDescription := ''   ''\<rparr>) (Rejected []) =
     (ready_state\<lparr>jobDescription := ''   '',
        error := Some ''Please enter the job description''\<rparr>, [])
   \<and> handleSubmit [] (ready_state\<lparr>jobDescription := '' too short ''\<rparr>) (Rejected []) =
     (ready_state\<lparr>jobDescription := '' too short '',
        error := Some ''Job description must be at least 20 characters long''\<rparr>, [])
   \<and> handleSubmit [] (ready_state\<lparr>apiStatus := Error\<rparr>) (Rejected []) =
     (ready_state\<lparr>apiStatus := Error, error := Some
        ''Backend server is not available. Please ensure the server is running''\<rparr>, [])
   \<and> length (snd (handleSubmit [] ready_state (Rejected []))) = 1"
  using handleSubmit_preconditions [of initial_state "[]" "Rejected []"]
    handleSubmit_preconditions [of "ready_state\<lparr>jobDescription := ''   ''\<rparr>" "[]" "Rejected []"]
    handleSubmit_preconditions
      [of "ready_state\<lparr>jobDescription := '' too short ''\<rparr>" "[]" "Rejected []"]
    handleSubmit_preconditions [of "ready_state\<lparr>apiStatus := Error\<rparr>" "[]" "Rejected []"]
    handleSubmit_preconditions [of ready_state "[]" "Rejected []"]
  by (simp add: initial_state_def ready_state_def trim_def isWhiteSpace_def)

section \<open>Properties of the result renderer\<close>

text \<open>
  Claim C5, as amended. The colour and the icon of a score depend on exactly its band
  under the cut points 90, 80 and 70: two scores have the same colour scheme (the same
  icon) if and only if they lie in the same of the four bands. The label has five
  values: it also cuts at 60, so that the band below 70 carries two labels.
\<close>

theorem score_banding:
  "(getScoreColor s = getScoreColor s' \<longleftrightarrow> band s = band s')
   \<and> (getScoreIcon s = getScoreIcon s' \<longleftrightarrow> band s = band s')
   \<and> (getScoreDescription s = getScoreDescription s' \<longleftrightarrow> label_band s = label_band s')
   \<and> band s \<in> {0, 1, 2, 3}
   \<and> band s = (if label_band s = 0 then 0 else label_band s - 1)"
  by (simp add: band_def label_band_def getScoreColor_def getScoreIcon_def
      getScoreDescription_def)

theorem score_banding_witness:
  "getScoreColor 95 \<noteq> getScoreColor 85 \<and> getScoreIcon 85 \<noteq> getScoreIcon 75
   \<and> getScoreColor 65 = getScoreColor 50 \<and> getScoreIcon 65 = getScoreIcon 50
   \<and> getScoreDescription 75 \<noteq> getScoreDescription 65"
  using score_banding [of 95 85] score_banding [of 85 75] score_banding [of 65 50]
    score_banding [of 75 65]
  by (simp add: band_def label_band_def)

text \<open>
  Claim C5 as stated fails for the label: 65 and 50 lie in the same band (below 70)
  and have different labels.
\<close>

theorem label_banding_counterexample:
  "band 65 = band 50 \<and> getScoreColor 65 = getScoreColor 50
   \<and> getScoreDescription 65 = ''Fair Match''
   \<and> getScoreDescription 50 = ''Needs Improvement''"
  by (simp add: band_def getScoreColor_def getScoreDescription_def)

section \<open>Properties of the score extraction\<close>

lemma pattern_score_range: "pattern_score p t = Some v \<Longrightarrow> 0 \<le> v \<and> v \<le> 100"
  by (auto simp add: pattern_score_def split: option.splits if_splits)

lemma first_score_found:
  "first_score ps t = Some v \<Longrightarrow> \<exists>p \<in> set ps. pattern_score p t = Some v"
  by (induction ps) (auto split: option.splits)

lemma first_score_none:
  "first_score ps t = None \<longleftrightarrow> list_all (\<lambda>p. pattern_score p t = None) ps"
  by (induction ps) (auto split: option.splits)

lemma keyword_score_values: "keyword_score t \<in> {85, 75, 65, 60}"
  by (simp add: keyword_score_def)

text \<open>
  Claim C10. \<open>extractMatchScore\<close> is defined on every string and its result lies
  between 0 and 100: it is the score that one of the four patterns yields (which the
  loop keeps only when it is in range) or one of the fallback values 85, 75, 65, 60.
\<close>

theorem extractMatchScore_range:
  "0 \<le> extractMatchScore t \<and> extractMatchScore t \<le> 100
   \<and> ((\<exists>p. p \<in> set patterns \<and> pattern_score p t = Some (extractMatchScore t))
        \<or> extractMatchScore t \<in> {85, 75, 65, 60})"
proof (cases "first_score patterns t")
  case None
  then have "extractMatchScore t = keyword_score t"
    by (simp add: extractMatchScore_def)
  with keyword_score_values [of t] show ?thesis by auto
next
  case (Some v)
  then have e: "extractMatchScore t = v"
    by (simp add: extractMatchScore_def)
  from Some obtain p where "p \<in> set patterns" "pattern_score p t = Some v"
    using first_score_found by blast
  with e pattern_score_range [of p t v] show ?thesis by auto
qed

theorem extractMatchScore_range_witness:
  "extractMatchScore [] = 60 \<and> extractMatchScore ''Rated 150%'' = 60
   \<and> extractMatchScore ''Score: 150% or 40%'' = 40
   \<and> 0 \<le> extractMatchScore ''Score: 150% or 40%''
   \<and> extractMatchScore ''Score: 150% or 40%'' \<le> 100"
proof -
  have a: "extractMatchScore [] = 60" by code_simp
  have b: "extractMatchScore ''Rated 150%'' = 60" by code_simp
  have c: "extractMatchScore ''Score: 150% or 40%'' = 40" by code_simp
  from extractMatchScore_range [of "''Score: 150% or 40%''"] a b c show ?thesis by simp
qed

text \<open>
  Claim C4, at the text \<open>Rated 150% then 42%\<close>, which has no keyword. In the
  specification's reading no pattern yields a score: the first three do not match,
  and the first standalone percentage, 150, is out of range; the claim's value is the
  keyword tier, 60. The code returns 42: with the \<open>g\<close> flag \<open>match[1]\<close> of the fourth
  pattern is the second matched text, \<open>42%\<close>. In \<open>An EXCELLENT fit\<close>, with no
  percentage, the tier is the one of the lower-cased text.
\<close>

theorem second_percentage_returned:
  "list_all (\<lambda>p. spec_pattern_score p two_percentages = None) patterns
   \<and> regex_exec (source pattern4) two_percentages = Some ([''150%'', ''150''], '' then 42%'')
   \<and> js_match two_percentages pattern4 = Some [''150%'', ''42%'']
   \<and> keyword_score two_percentages = 60
   \<and> extractMatchScore two_percentages = 42
   \<and> extractMatchScore ''An EXCELLENT fit'' = 85"
proof -
  have a: "list_all (\<lambda>p. spec_pattern_score p two_percentages = None) patterns"
    by code_simp
  have b: "regex_exec (source pattern4) two_percentages
      = Some ([''150%'', ''150''], '' then 42%'')"
    by code_simp
  have c: "js_match two_percentages pattern4 = Some [''150%'', ''42%'']"
    by code_simp
  have d: "keyword_score two_percentages = 60"
    by code_simp
  have e: "extractMatchScore two_percentages = 42"
    by code_simp
  have f: "extractMatchScore ''An EXCELLENT fit'' = 85"
    by code_simp
  show ?thesis by (intro conjI a b c d e f)
qed

text \<open>
  Claim C1, at the text \<open>Result 42%\<close>. Its only percentage is a standalone \<open>42%\<close> and
  the first three patterns do not match it. The fourth pattern carries the \<open>g\<close> flag,
  so \<open>match\<close> returns the list of matched texts, here with one element; \<open>match[1]\<close> is
  \<open>undefined\<close>, the pattern yields no score, and the result is the fallback 60, not 42.
\<close>

theorem standalone_percent_not_returned:
  "js_match ''Result 42%'' pattern1 = None
   \<and> js_match ''Result 42%'' pattern2 = None
   \<and> js_match ''Result 42%'' pattern3 = None
   \<and> js_match ''Result 42%'' pattern4 = Some [''42%'']
   \<and> pattern_score pattern4 ''Result 42%'' = None
   \<and> extractMatchScore ''Result 42%'' = 60"
  by code_simp

section \<open>Properties of the stored result\<close>

text \<open>
  When the checks of \<open>handleSubmit\<close> pass and the response is successful with a result
  text, the stored score is the server's score whenever the response carries one that
  is not 0, whatever the text says; without a server score it is \<open>extractMatchScore\<close>
  of the text. The sections and the raw text are stored with it and no error is shown.
\<close>

theorem server_score_preferred:
  assumes "stored_file st \<noteq> None" and "length (trim (jobDescription st)) \<ge> 20"
    and "apiStatus st \<noteq> Error"
    and "ok r" and "data_success r" and "data_result r = Some text"
  shows "(data_matchScore r = Some n \<and> n \<noteq> 0 \<longrightarrow>
            map_option matchScore (results (fst (handleSubmit te st (Responded r)))) = Some n)
         \<and> (data_matchScore r = None \<longrightarrow>
            map_option matchScore (results (fst (handleSubmit te st (Responded r))))
              = Some (extractMatchScore text))
         \<and> map_option analysis (results (fst (handleSubmit te st (Responded r))))
              = Some (parseAnalysisResult text)
         \<and> map_option rawAnalysis (results (fst (handleSubmit te st (Responded r)))) = Some text
         \<and> error (fst (handleSubmit te st (Responded r))) = None"
  using assms
  by (auto simp add: handleSubmit_def analyse_response_def Let_def split: option.splits)

theorem server_score_preferred_witness:
  "map_option matchScore (results (fst (handleSubmit [] ready_state (Responded response_92))))
     = Some 92
   \<and> map_option (skills \<circ> analysis)
        (results (fst (handleSubmit [] ready_state (Responded response_92)))) = Some ''Good skills''
   \<and> map_option (experience \<circ> analysis)
        (results (fst (handleSubmit [] ready_state (Responded response_92)))) = Some ''5 years''
   \<and> extractMatchScore ''<h2>Skills</h2>Good skills<h2>Experience</h2>5 years'' = 75"
proof -
  have pre: "stored_file ready_state \<noteq> None" "length (trim (jobDescription ready_state)) \<ge> 20"
    "apiStatus ready_state \<noteq> Error"
    by (simp_all add: ready_state_def initial_state_def trim_def isWhiteSpace_def)
  have r: "ok response_92" "data_success response_92"
    "data_result response_92 = Some ''<h2>Skills</h2>Good skills<h2>Experience</h2>5 years''"
    "data_matchScore response_92 = Some 92 \<and> (92::int) \<noteq> 0"
    by (simp_all add: response_92_def)
  have p: "parseAnalysisResult ''<h2>Skills</h2>Good skills<h2>Experience</h2>5 years'' =
      \<lparr>skills = ''Good skills'', experience = ''5 years'', recommendations = [],
       strengths = [], weaknesses = [],
       overall = ''<h2>Skills</h2>Good skills<h2>Experience</h2>5 years''\<rparr>"
    by code_simp
  have e: "extractMatchScore ''<h2>Skills</h2>Good skills<h2>Experience</h2>5 years'' = 75"
    by code_simp
  from server_score_preferred [OF pre r(1,2,3), of 92 "[]"] r(4) p e show ?thesis
    by (auto simp add: option.map_comp [symmetric])
qed

text \<open>
  Claim C2, at a successful response with the server score 0 and the result text
  \<open>Match Percentage: 50%\<close>. The claim's stored score is the server's, 0. The code stores
  50: \<open>data.matchScore || extractMatchScore(data.result)\<close> takes 0 as absent and reads
  the text. The score 0 is one that the heuristic itself returns (\<open>score >= 0\<close>) and
  that the renderer labels.
\<close>

theorem server_score_zero_replaced:
  "ok response_0 \<and> data_success response_0 \<and> data_matchScore response_0 = Some 0
   \<and> map_option matchScore (results (fst (handleSubmit [] ready_state (Responded response_0))))
       = Some 50
   \<and> extractMatchScore ''Match Percentage: 0%'' = 0
   \<and> getScoreDescription 0 = ''Needs Improvement''"
proof -
  have e: "extractMatchScore ''Match Percentage: 50%'' = 50" by code_simp
  have z: "extractMatchScore ''Match Percentage: 0%'' = 0" by code_simp
  have pre: "trim (jobDescription ready_state) = ''Senior engineer, ten years''"
    by (simp add: ready_state_def initial_state_def trim_def isWhiteSpace_def)
  show ?thesis using e z pre
    by (simp add: handleSubmit_def analyse_response_def Let_def response_0_def ready_state_def
        initial_state_def pdf_file_def getScoreDescription_def)
qed

section \<open>Properties of the section parser\<close>

text \<open>
  Claim C9, at the text \<open><h2>Intro</h2>text about skills<h2>Experience</h2>exp\<close>. Its
  headings are \<open>Intro\<close> and \<open>Experience\<close>; none contains \<open>skills\<close>, so the claim's
  \<open>skills\<close> section is empty. The code sets it to \<open>exp\<close>: with the \<open>s\<close> flag the
  \<open>.*?\<close> after the opening tag runs over the closing tag \<open></h2>\<close> to the word
  \<open>skills\<close> in the body text, and the next \<open>.*?\<close> runs on to the closing tag of the
  heading \<open>Experience\<close>. The same holds with \<open>h3\<close> and \<open>h4\<close> tags. The \<open>experience\<close>
  section of this text is the one of the claim, and \<open>overall\<close> is the text.
\<close>

theorem skills_from_body_text:
  "spec_section ''skills'' stray_keyword_analysis = []
   \<and> js_match stray_keyword_analysis (heading_pattern ''skills'')
       = Some [''<h2>Intro</h2>text about skills<h2>Experience</h2>exp'', ''exp'']
   \<and> skills (parseAnalysisResult stray_keyword_analysis) = ''exp''
   \<and> skills (parseAnalysisResult ''<h3>Intro</h3>text about skills<h4>Experience</h4>exp'')
       = ''exp''
   \<and> spec_section ''skills'' ''<h3>Intro</h3>text about skills<h4>Experience</h4>exp'' = []
   \<and> experience (parseAnalysisResult stray_keyword_analysis) = ''exp''
   \<and> spec_section ''experience'' stray_keyword_analysis = ''exp''
   \<and> overall (parseAnalysisResult stray_keyword_analysis) = stray_keyword_analysis"
proof -
  have a: "spec_section ''skills'' stray_keyword_analysis = []"
    by code_simp
  have b: "js_match stray_keyword_analysis (heading_pattern ''skills'')
       = Some [''<h2>Intro</h2>text about skills<h2>Experience</h2>exp'', ''exp'']"
    by code_simp
  have c: "skills (parseAnalysisResult stray_keyword_analysis) = ''exp''"
    by (simp add: parseAnalysisResult_def section_of_def element_at_def b)
  have d': "section_of ''skills'' ''<h3>Intro</h3>text about skills<h4>Experience</h4>exp''
       = ''exp''"
    by code_simp
  have d: "skills (parseAnalysisResult ''<h3>Intro</h3>text about skills<h4>Experience</h4>exp'')
       = ''exp''"
    unfolding parseAnalysisResult_def d' by simp
  have e: "spec_section ''skills'' ''<h3>Intro</h3>text about skills<h4>Experience</h4>exp'' = []"
    by code_simp
  have f': "section_of ''experience'' stray_keyword_analysis = ''exp''"
    by code_simp
  have f: "experience (parseAnalysisResult stray_keyword_analysis) = ''exp''"
    unfolding parseAnalysisResult_def f' by simp
  have g: "spec_section ''experience'' stray_keyword_analysis = ''exp''"
    by code_simp
  have h: "overall (parseAnalysisResult stray_keyword_analysis) = stray_keyword_analysis"
    by (simp add: parseAnalysisResult_def)
  show ?thesis by (intro conjI a b c d e f g h)
qed

section \<open>Properties of the error timers\<close>

lemma timers_ok_initial: "timers_ok initial_runtime"
  by (simp add: timers_ok_def initial_runtime_def truthy_def)

lemma timers_ok_setTimeout_share:
  "timers_ok \<sigma> \<Longrightarrow> timers_ok (setTimeout ShareTimer 2000 \<sigma>)"
  by (auto simp add: timers_ok_def setTimeout_def)

lemma timers_ok_setError: "timers_ok \<sigma> \<Longrightarrow> timers_ok (setError v \<sigma>)"
  by (auto simp add: timers_ok_def setError_def error_effect_def setTimeout_def clearTimeout_def
      Let_def distinct_map_filter split: option.splits)

lemma timers_ok_share: "timers_ok \<sigma> \<Longrightarrow> timers_ok (share_copied \<sigma>)"
  unfolding share_copied_def by (intro timers_ok_setError timers_ok_setTimeout_share)

lemma timers_ok_time_passes:
  "timers_ok \<sigma> \<Longrightarrow> time_passes d \<sigma> = Some \<sigma>' \<Longrightarrow> timers_ok \<sigma>'"
proof -
  assume ok: "timers_ok \<sigma>" and tp: "time_passes d \<sigma> = Some \<sigma>'"
  from tp have later: "\<forall>t \<in> set (pending \<sigma>). clock \<sigma> + d \<le> due t"
    and s': "\<sigma>' = \<sigma>\<lparr>clock := clock \<sigma> + d\<rparr>"
    by (auto simp add: time_passes_def list_all_iff split: if_splits)
  have "due t \<le> clock \<sigma> + d + 8000" if "t \<in> set (pending \<sigma>)" for t
    using ok that by (fastforce simp add: timers_ok_def)
  with ok later show ?thesis
    by (simp add: timers_ok_def s')
qed

lemma timers_ok_timer_fires:
  assumes "timers_ok \<sigma>" and "timer_fires i \<sigma> = Some \<sigma>'"
  shows "timers_ok \<sigma>'"
proof -
  from assms(2) have s': "\<sigma>' = setError None (clearTimeout i \<sigma>)"
    by (auto simp add: timer_fires_def split: option.splits if_splits)
  show ?thesis
  proof (cases "error_message \<sigma> = None")
    case True
    with assms(1) have "timers_ok (clearTimeout i \<sigma>)"
      by (auto simp add: timers_ok_def clearTimeout_def distinct_map_filter truthy_def)
    then show ?thesis unfolding s' by (rule timers_ok_setError)
  next
    case False
    with assms(1) show ?thesis unfolding s'
      by (auto simp add: timers_ok_def setError_def error_effect_def clearTimeout_def
          Let_def distinct_map_filter truthy_def split: option.splits)
  qed
qed

lemma timers_ok_step: "timers_ok \<sigma> \<Longrightarrow> step \<sigma> e = Some \<sigma>' \<Longrightarrow> timers_ok \<sigma>'"
  by (cases e)
    (auto intro: timers_ok_setError timers_ok_share timers_ok_time_passes timers_ok_timer_fires)

lemma timers_ok_run: "timers_ok \<sigma> \<Longrightarrow> run \<sigma> es = Some \<sigma>' \<Longrightarrow> timers_ok \<sigma>'"
proof (induction es arbitrary: \<sigma>)
  case Nil
  then show ?case by simp
next
  case (Cons e es)
  then show ?case by (auto split: option.splits dest: timers_ok_step)
qed

lemma single_by_id:
  assumes "distinct (map f xs)" and "\<forall>x \<in> set xs. P x \<longrightarrow> f x = c"
  shows "length (filter P xs) \<le> 1"
  using assms
proof (induction xs)
  case Nil
  then show ?case by simp
next
  case (Cons x xs)
  show ?case
  proof (cases "P x")
    case True
    with Cons.prems have "\<forall>y \<in> set xs. \<not> P y" by (auto simp add: image_iff)
    then have "filter P xs = []" by (simp add: filter_empty_conv)
    with True show ?thesis by simp
  next
    case False
    with Cons show ?thesis by simp
  qed
qed

lemma timers_ok_single: "timers_ok \<sigma> \<Longrightarrow> length (effect_timers \<sigma>) \<le> 1"
  unfolding effect_timers_def
  by (rule single_by_id [where f = timer_id and c = "the (cleanup \<sigma>)"])
    (auto simp add: timers_ok_def)

lemma effect_timers_setError:
  assumes "timers_ok \<sigma>" and "truthy v" and "v \<noteq> error_message \<sigma>"
  shows "effect_timers (setError v \<sigma>) =
           [\<lparr>timer_id = next_id \<sigma>, due = clock \<sigma> + 8000, origin = EffectTimer\<rparr>]"
proof -
  have "filter (\<lambda>t. origin t = EffectTimer)
          (case cleanup \<sigma> of None \<Rightarrow> pending \<sigma>
           | Some i \<Rightarrow> filter (\<lambda>t. timer_id t \<noteq> i) (pending \<sigma>)) = []"
    using assms(1) by (auto simp add: timers_ok_def filter_empty_conv split: option.splits)
  with assms(2,3) show ?thesis
    by (auto simp add: effect_timers_def setError_def error_effect_def setTimeout_def
        clearTimeout_def Let_def split: option.splits)
qed

lemma setError_fresh:
  assumes ok: "timers_ok \<sigma>" and v: "truthy v" "v \<noteq> error_message \<sigma>"
    and eff: "\<forall>t \<in> set (pending \<sigma>). origin t = EffectTimer"
  shows "setError v \<sigma> =
           \<sigma>\<lparr>error_message := v,
             pending := [\<lparr>timer_id = next_id \<sigma>, due = clock \<sigma> + 8000, origin = EffectTimer\<rparr>],
             cleanup := Some (next_id \<sigma>), next_id := next_id \<sigma> + 1\<rparr>"
proof -
  have "(case cleanup \<sigma> of None \<Rightarrow> pending \<sigma>
           | Some i \<Rightarrow> filter (\<lambda>t. timer_id t \<noteq> i) (pending \<sigma>)) = []"
    using ok eff by (auto simp add: timers_ok_def filter_empty_conv split: option.splits)
  with v show ?thesis
    by (auto simp add: setError_def error_effect_def setTimeout_def clearTimeout_def Let_def
        split: option.splits)
qed

lemma message_lifetime:
  assumes ok: "timers_ok \<sigma>" and v: "truthy v" "v \<noteq> error_message \<sigma>"
    and eff: "\<forall>t \<in> set (pending \<sigma>). origin t = EffectTimer"
  shows "(d < 8000 \<longrightarrow>
            map_option error_message (run (setError v \<sigma>) [TimePasses d]) = Some v
            \<and> run (setError v \<sigma>) [TimePasses d, TimerFires (next_id \<sigma>)] = None)
         \<and> (d > 8000 \<longrightarrow> run (setError v \<sigma>) [TimePasses d] = None)
         \<and> map_option (\<lambda>s. (error_message s, clock s, pending s))
              (run (setError v \<sigma>) [TimePasses 8000, TimerFires (next_id \<sigma>)])
            = Some (None, clock \<sigma> + 8000, [])"
proof -
  from v(1) have vn: "v \<noteq> None" by (cases v) (simp_all add: truthy_def)
  have 1: "d < 8000 \<longrightarrow>
            map_option error_message (run (setError v \<sigma>) [TimePasses d]) = Some v
            \<and> run (setError v \<sigma>) [TimePasses d, TimerFires (next_id \<sigma>)] = None"
    by (simp add: setError_fresh [OF assms] time_passes_def timer_fires_def)
  have 2: "d > 8000 \<longrightarrow> run (setError v \<sigma>) [TimePasses d] = None"
    by (simp add: setError_fresh [OF assms] time_passes_def)
  have 3: "map_option (\<lambda>s. (error_message s, clock s, pending s))
              (run (setError v \<sigma>) [TimePasses 8000, TimerFires (next_id \<sigma>)])
            = Some (None, clock \<sigma> + 8000, [])"
    unfolding setError_fresh [OF assms] using vn
    by (simp add: time_passes_def timer_fires_def clearTimeout_def
        setError_def error_effect_def truthy_def Let_def)
  from 1 2 3 show ?thesis by blast
qed

text \<open>
  Claim C6, as amended, for every state reached from the initial one by any sequence
  of events. Of the timers that the effect sets, at most one is pending. One is
  pending exactly when an error message is shown; it is the one that the effect's
  cleanup will clear, and it is due within 8 seconds. Setting a message that differs
  from the one shown cancels the effect's pending timer and leaves one effect timer,
  due exactly 8000 ms later. When no timer of the share button is pending, the new
  message is shown for exactly 8 seconds unless the error state is changed before:
  it is still shown after any shorter time and its timer cannot fire then, time
  cannot go beyond 8000 ms with the timer pending, and at 8000 ms the timer fires,
  which clears the error state and leaves no timer pending.
\<close>

theorem effect_timer_invariant:
  assumes "run initial_runtime es = Some \<sigma>"
  shows "length (effect_timers \<sigma>) \<le> 1
         \<and> (truthy (error_message \<sigma>) \<longleftrightarrow> effect_timers \<sigma> \<noteq> [])
         \<and> (\<forall>t \<in> set (effect_timers \<sigma>). clock \<sigma> \<le> due t \<and> due t \<le> clock \<sigma> + 8000
               \<and> cleanup \<sigma> = Some (timer_id t))
         \<and> (\<forall>v. truthy v \<and> v \<noteq> error_message \<sigma> \<longrightarrow>
               effect_timers (setError v \<sigma>) =
                 [\<lparr>timer_id = next_id \<sigma>, due = clock \<sigma> + 8000, origin = EffectTimer\<rparr>])
         \<and> (\<forall>v d. truthy v \<and> v \<noteq> error_message \<sigma>
                 \<and> (\<forall>t \<in> set (pending \<sigma>). origin t = EffectTimer) \<longrightarrow>
               (d < 8000 \<longrightarrow>
                  map_option error_message (run (setError v \<sigma>) [TimePasses d]) = Some v
                  \<and> run (setError v \<sigma>) [TimePasses d, TimerFires (next_id \<sigma>)] = None)
               \<and> (d > 8000 \<longrightarrow> run (setError v \<sigma>) [TimePasses d] = None)
               \<and> map_option (\<lambda>s. (error_message s, clock s, pending s))
                    (run (setError v \<sigma>) [TimePasses 8000, TimerFires (next_id \<sigma>)])
                  = Some (None, clock \<sigma> + 8000, []))"
proof -
  have ok: "timers_ok \<sigma>"
    using timers_ok_run [OF timers_ok_initial assms] .
  have 1: "length (effect_timers \<sigma>) \<le> 1" using ok by (rule timers_ok_single)
  have 2: "truthy (error_message \<sigma>) \<longleftrightarrow> effect_timers \<sigma> \<noteq> []"
    using ok by (auto simp add: timers_ok_def effect_timers_def filter_empty_conv)
  have 3: "\<forall>t \<in> set (effect_timers \<sigma>). clock \<sigma> \<le> due t \<and> due t \<le> clock \<sigma> + 8000
               \<and> cleanup \<sigma> = Some (timer_id t)"
    using ok by (auto simp add: timers_ok_def effect_timers_def)
  have 4: "\<forall>v. truthy v \<and> v \<noteq> error_message \<sigma> \<longrightarrow>
               effect_timers (setError v \<sigma>) =
                 [\<lparr>timer_id = next_id \<sigma>, due = clock \<sigma> + 8000, origin = EffectTimer\<rparr>]"
    using effect_timers_setError [OF ok] by blast
  have 5: "\<forall>v d. truthy v \<and> v \<noteq> error_message \<sigma>
                 \<and> (\<forall>t \<in> set (pending \<sigma>). origin t = EffectTimer) \<longrightarrow>
               (d < 8000 \<longrightarrow>
                  map_option error_message (run (setError v \<sigma>) [TimePasses d]) = Some v
                  \<and> run (setError v \<sigma>) [TimePasses d, TimerFires (next_id \<sigma>)] = None)
               \<and> (d > 8000 \<longrightarrow> run (setError v \<sigma>) [TimePasses d] = None)
               \<and> map_option (\<lambda>s. (error_message s, clock s, pending s))
                    (run (setError v \<sigma>) [TimePasses 8000, TimerFires (next_id \<sigma>)])
                  = Some (None, clock \<sigma> + 8000, [])"
  proof (intro allI impI)
    fix v d
    assume h: "truthy v \<and> v \<noteq> error_message \<sigma>
        \<and> (\<forall>t \<in> set (pending \<sigma>). origin t = EffectTimer)"
    then have a: "truthy v" and b: "v \<noteq> error_message \<sigma>"
      and c: "\<forall>t \<in> set (pending \<sigma>). origin t = EffectTimer"
      by simp_all
    show "(d < 8000 \<longrightarrow>
                  map_option error_message (run (setError v \<sigma>) [TimePasses d]) = Some v
                  \<and> run (setError v \<sigma>) [TimePasses d, TimerFires (next_id \<sigma>)] = None)
               \<and> (d > 8000 \<longrightarrow> run (setError v \<sigma>) [TimePasses d] = None)
               \<and> map_option (\<lambda>s. (error_message s, clock s, pending s))
                    (run (setError v \<sigma>) [TimePasses 8000, TimerFires (next_id \<sigma>)])
                  = Some (None, clock \<sigma> + 8000, [])"
      by (rule message_lifetime [OF ok a b c])
  qed
  from 1 2 3 4 5 show ?thesis by (intro conjI)
qed

theorem effect_timer_invariant_witness:
  "run initial_runtime [SetError pdf_message, TimePasses 5000] = Some shown_for_5s
   \<and> effect_timers (setError size_message shown_for_5s)
       = [\<lparr>timer_id = 1, due = 13000, origin = EffectTimer\<rparr>]
   \<and> map_option error_message (run (setError size_message shown_for_5s) [TimePasses 7999])
       = Some size_message
   \<and> run (setError size_message shown_for_5s) [TimePasses 7999, TimerFires 1] = None
   \<and> run (setError size_message shown_for_5s) [TimePasses 8001] = None
   \<and> map_option (\<lambda>s. (error_message s, clock s, pending s))
        (run (setError size_message shown_for_5s) [TimePasses 8000, TimerFires 1])
       = Some (None, 13000, [])"
proof -
  have r: "run initial_runtime [SetError pdf_message, TimePasses 5000] = Some shown_for_5s"
    by (simp add: initial_runtime_def pdf_message_def shown_for_5s_def setError_def
        error_effect_def setTimeout_def truthy_def time_passes_def)
  have h: "truthy size_message" "size_message \<noteq> error_message shown_for_5s"
    "\<forall>t \<in> set (pending shown_for_5s). origin t = EffectTimer"
    "next_id shown_for_5s = 1" "clock shown_for_5s = 5000"
    by (simp_all add: truthy_def size_message_def pdf_message_def shown_for_5s_def)
  from effect_timer_invariant [OF r] have
    "\<forall>v d. truthy v \<and> v \<noteq> error_message shown_for_5s
                 \<and> (\<forall>t \<in> set (pending shown_for_5s). origin t = EffectTimer) \<longrightarrow>
               (d < 8000 \<longrightarrow>
                  map_option error_message (run (setError v shown_for_5s) [TimePasses d]) = Some v
                  \<and> run (setError v shown_for_5s) [TimePasses d, TimerFires (next_id shown_for_5s)] = None)
               \<and> (d > 8000 \<longrightarrow> run (setError v shown_for_5s) [TimePasses d] = None)
               \<and> map_option (\<lambda>s. (error_message s, clock s, pending s))
                    (run (setError v shown_for_5s) [TimePasses 8000, TimerFires (next_id shown_for_5s)])
                  = Some (None, clock shown_for_5s + 8000, [])"
    and e: "\<forall>v. truthy v \<and> v \<noteq> error_message shown_for_5s \<longrightarrow>
               effect_timers (setError v shown_for_5s) =
                 [\<lparr>timer_id = next_id shown_for_5s, due = clock shown_for_5s + 8000,
                   origin = EffectTimer\<rparr>]"
    by blast+
  from this(1) [rule_format, of size_message 7999] this(1) [rule_format, of size_message 8001]
    e [rule_format, of size_message] h r
  show ?thesis by simp
qed

text \<open>
  Claim C6 as stated fails at the share button. After the confirmation is set, two
  timers that clear the error state are pending, due after 2 and after 8 seconds;
  the confirmation is cleared after 2 seconds; and a validation message set one second
  after the confirmation is cleared by that same timer one second later.
\<close>

theorem share_timer_counterexample:
  "map_option (\<lambda>\<sigma>. map (\<lambda>t. (due t, origin t)) (pending \<sigma>)) (run initial_runtime [ShareCopied])
     = Some [(2000, ShareTimer), (8000, EffectTimer)]
   \<and> map_option (\<lambda>\<sigma>. (error_message \<sigma>, clock \<sigma>))
        (run initial_runtime [ShareCopied, TimePasses 2000, TimerFires 0])
     = Some (None, 2000)
   \<and> map_option (\<lambda>\<sigma>. (error_message \<sigma>, clock \<sigma>))
        (run initial_runtime [ShareCopied, TimePasses 1000, SetError pdf_message])
     = Some (pdf_message, 1000)
   \<and> map_option (\<lambda>\<sigma>. (error_message \<sigma>, clock \<sigma>))
        (run initial_runtime
           [ShareCopied, TimePasses 1000, SetError pdf_message, TimePasses 1000, TimerFires 0])
     = Some (None, 2000)"
  by (simp add: initial_runtime_def pdf_message_def share_copied_def setError_def
      error_effect_def setTimeout_def clearTimeout_def truthy_def time_passes_def
      timer_fires_def)

end
